theory Spec2Isabelle
  imports Main "HOL-Library.Word"
begin

section \<open>The SSH tunnel of db-backup-go (src/data/ssh_tunnel.go)\<close>

text \<open>
  The tunnel object is a Go struct mutated by its methods \<^verbatim>\<open>Start\<close> and \<^verbatim>\<open>Stop\<close>.
  Here every method takes the struct and returns the updated struct, the list of
  input/output events it performed, and its outcome. The operating system, the file
  system and the SSH library are a record of answer functions (\<open>world\<close>): each fallible
  call of the source asks the world and branches on the answer, as the source branches
  on \<^verbatim>\<open>err != nil\<close>. A world answers one call of a method; the next call may meet another
  world. The forwarding goroutine is modelled on its own, on the struct as \<^verbatim>\<open>Start\<close> left
  it; calls of \<^verbatim>\<open>Start\<close> and \<^verbatim>\<open>Stop\<close> that race with it or with each other are outside the
  model.
\<close>

subsection \<open>Data\<close>

type_synonym byte = "8 word"

text \<open>A network address \<^verbatim>\<open>fmt.Sprintf("%s:%d", host, port)\<close>: host and port.
  The literal \<^verbatim>\<open>":0"\<close> is \<open>Addr '''' 0\<close>.\<close>

datatype addr = Addr string int

text \<open>Resources the code opens and closes; the numbers are the handles the world gives out.\<close>

datatype handle = Listener nat | Client nat | Conn nat | Channel nat

text \<open>A Go channel used as a one-shot signal: nil, open, or closed.\<close>

datatype chan = NilChan | OpenChan | ClosedChan

text \<open>Go errors. \<open>SysError\<close> is an error of the system or of a library; every other
  constructor is one \<^verbatim>\<open>fmt.Errorf("...: %w", err)\<close> of the source, named after its message.\<close>

datatype error =
    SysError string
  | ReadKeyFileFailed error          \<comment> \<open>failed to read SSH key file\<close>
  | ParseKeyFailed error             \<comment> \<open>failed to parse SSH key\<close>
  | ConnectFailed addr error         \<comment> \<open>failed to connect to host:port\<close>
  | FindFreePortFailed error         \<comment> \<open>failed to find free port\<close>
  | ConnectBastionFailed error       \<comment> \<open>failed to connect to bastion\<close>
  | DialThroughBastionFailed error   \<comment> \<open>failed to dial target through bastion\<close>
  | LoadKeyFailed error              \<comment> \<open>failed to load SSH key\<close>
  | SSHThroughBastionFailed error    \<comment> \<open>failed to create SSH connection through bastion\<close>
  | ConnectSSHHostFailed error       \<comment> \<open>failed to connect to SSH host\<close>
  | LocalListenerFailed error        \<comment> \<open>failed to create local listener\<close>

text \<open>Go run-time panics the code can raise.\<close>

datatype panic =
    SliceBoundsOutOfRange nat nat    \<comment> \<open>slice bounds out of range [:hi] with length n\<close>
  | IndexOutOfRange                  \<comment> \<open>a slice or index outside a byte buffer\<close>
  | CloseOfClosedChannel
  | CloseOfNilChannel
  | NilDereference

text \<open>What a call ends with: a value, a returned error (with the zero value), or a panic.\<close>

datatype 'a outcome = Ret 'a | Fail error | Panic panic

datatype event =
    Listen addr                      \<comment> \<open>net.Listen("tcp", addr)\<close>
  | ReadFile string                  \<comment> \<open>os.ReadFile(path)\<close>
  | SSHDial addr string              \<comment> \<open>ssh.Dial("tcp", addr, config) as user\<close>
  | ClientDial nat addr              \<comment> \<open>client.Dial("tcp", addr)\<close>
  | NewClientConn nat addr string    \<comment> \<open>ssh.NewClientConn(conn, addr, config) as user\<close>
  | OpenChannel nat string "byte list"  \<comment> \<open>client.OpenChannel(name, payload)\<close>
  | Opened handle
  | Closed handle
  | CloseStopChan                    \<comment> \<open>close(t.stopChan)\<close>
  | GoForwardTunnel                  \<comment> \<open>go t.forwardTunnel()\<close>
  | GoRelay nat nat                  \<comment> \<open>the two io.Copy goroutines of a connection and its channel\<close>
  | Sleep nat                        \<comment> \<open>time.Sleep, in milliseconds\<close>

record world =
  listen :: "addr \<Rightarrow> error + (nat \<times> int)"
    \<comment> \<open>net.Listen: an error, or the listener and the port it is bound to\<close>
  expandEnv :: "string \<Rightarrow> string"                 \<comment> \<open>os.ExpandEnv\<close>
  userHomeDir :: string                               \<comment> \<open>os.UserHomeDir, error dropped\<close>
  pathJoin :: "string \<Rightarrow> string \<Rightarrow> string"        \<comment> \<open>filepath.Join\<close>
  readFile :: "string \<Rightarrow> error + byte list"        \<comment> \<open>os.ReadFile\<close>
  parsePrivateKey :: "byte list \<Rightarrow> error + nat"    \<comment> \<open>ssh.ParsePrivateKey\<close>
  sshDial :: "addr \<Rightarrow> string \<Rightarrow> nat \<Rightarrow> error + nat"
    \<comment> \<open>ssh.Dial: address, user, key\<close>
  clientDial :: "nat \<Rightarrow> addr \<Rightarrow> error + nat"      \<comment> \<open>(*ssh.Client).Dial\<close>
  newClientConn :: "nat \<Rightarrow> addr \<Rightarrow> string \<Rightarrow> nat \<Rightarrow> error + nat"
    \<comment> \<open>ssh.NewClientConn and ssh.NewClient: connection, address, user, key\<close>
  openChannel :: "nat \<Rightarrow> string \<Rightarrow> byte list \<Rightarrow> error + nat"
    \<comment> \<open>(*ssh.Client).OpenChannel\<close>

record SSHTunnel =
  sshHost :: string
  sshPort :: int
  sshUser :: string
  sshKeyPath :: string
  remoteHost :: string
  remotePort :: int
  bastionHost :: string
  bastionPort :: int
  bastionUser :: string
  bastionKeyPath :: string
  localPort :: int
  server :: "nat option"
  bastionConn :: "nat option"
  targetConn :: "nat option"
  stopChan :: chan

subsection \<open>NewSSHTunnel\<close>

definition NewSSHTunnel ::
  "string \<Rightarrow> int \<Rightarrow> string \<Rightarrow> string \<Rightarrow> string \<Rightarrow> int \<Rightarrow>
   string \<Rightarrow> int \<Rightarrow> string \<Rightarrow> string \<Rightarrow> SSHTunnel" where
  "NewSSHTunnel sshHost' sshPort' sshUser' sshKeyPath' remoteHost' remotePort'
       bastionHost' bastionPort' bastionUser' bastionKeyPath' =
     (let bastionPort' = (if bastionPort' = 0 then 22 else bastionPort') in
      \<lparr> sshHost = sshHost', sshPort = sshPort', sshUser = sshUser',
        sshKeyPath = sshKeyPath', remoteHost = remoteHost', remotePort = remotePort',
        bastionHost = bastionHost', bastionPort = bastionPort',
        bastionUser = bastionUser', bastionKeyPath = bastionKeyPath',
        localPort = 0, server = None, bastionConn = None, targetConn = None,
        stopChan = OpenChan \<rparr>)"

subsection \<open>findFreePort\<close>

definition findFreePort :: "world \<Rightarrow> event list \<times> int outcome" where
  "findFreePort w =
     (case listen w (Addr '''' 0) of
        Inl err \<Rightarrow> ([Listen (Addr '''' 0)], Fail err)
      | Inr (listener, port) \<Rightarrow>
          ([Listen (Addr '''' 0), Opened (Listener listener), Closed (Listener listener)],
           Ret port))"

subsection \<open>loadSSHKey and createSSHClient\<close>

text \<open>The slice expression \<^verbatim>\<open>expandedPath[:2]\<close> panics when the string has fewer than two
  bytes; the source has no length check before it.\<close>

definition loadSSHKey :: "world \<Rightarrow> string \<Rightarrow> event list \<times> nat outcome" where
  "loadSSHKey w keyPath =
     (let expandedPath = expandEnv w keyPath in
      if length expandedPath < 2
      then ([], Panic (SliceBoundsOutOfRange 2 (length expandedPath)))
      else
        let expandedPath =
              (if take 2 expandedPath = ''~/''
               then pathJoin w (userHomeDir w) (drop 2 expandedPath)
               else expandedPath)
        in case readFile w expandedPath of
             Inl err \<Rightarrow> ([ReadFile expandedPath], Fail (ReadKeyFileFailed err))
           | Inr keyData \<Rightarrow>
               (case parsePrivateKey w keyData of
                  Inl err \<Rightarrow> ([ReadFile expandedPath], Fail (ParseKeyFailed err))
                | Inr key \<Rightarrow> ([ReadFile expandedPath], Ret key)))"

definition createSSHClient ::
  "world \<Rightarrow> string \<Rightarrow> int \<Rightarrow> string \<Rightarrow> string \<Rightarrow> event list \<times> nat outcome" where
  "createSSHClient w host port user keyPath =
     (case loadSSHKey w keyPath of
        (tr, Panic p) \<Rightarrow> (tr, Panic p)
      | (tr, Fail err) \<Rightarrow> (tr, Fail err)
      | (tr, Ret key) \<Rightarrow>
          (case sshDial w (Addr host port) user key of
             Inl err \<Rightarrow>
               (tr @ [SSHDial (Addr host port) user],
                Fail (ConnectFailed (Addr host port) err))
           | Inr client \<Rightarrow>
               (tr @ [SSHDial (Addr host port) user, Opened (Client client)],
                Ret client)))"

subsection \<open>Stop\<close>

text \<open>\<^verbatim>\<open>close(t.stopChan)\<close> comes first and panics on a closed (or nil) channel. The
  \<^verbatim>\<open>Close()\<close> calls return errors that the source drops.\<close>

definition Stop :: "SSHTunnel \<Rightarrow> SSHTunnel \<times> event list \<times> unit outcome" where
  "Stop t =
     (case stopChan t of
        NilChan \<Rightarrow> (t, [], Panic CloseOfNilChannel)
      | ClosedChan \<Rightarrow> (t, [], Panic CloseOfClosedChannel)
      | OpenChan \<Rightarrow>
          (let t = t\<lparr>stopChan := ClosedChan\<rparr>;
               tr = [CloseStopChan];
               (t, tr) = (case server t of
                            None \<Rightarrow> (t, tr)
                          | Some l \<Rightarrow> (t\<lparr>server := None\<rparr>, tr @ [Closed (Listener l)]));
               (t, tr) = (case targetConn t of
                            None \<Rightarrow> (t, tr)
                          | Some c \<Rightarrow> (t\<lparr>targetConn := None\<rparr>, tr @ [Closed (Client c)]));
               (t, tr) = (case bastionConn t of
                            None \<Rightarrow> (t, tr)
                          | Some c \<Rightarrow> (t\<lparr>bastionConn := None\<rparr>, tr @ [Closed (Client c)]))
           in (t\<lparr>localPort := 0\<rparr>, tr, Ret ())))"

subsection \<open>Start\<close>

text \<open>Lines 129--174, the branch \<^verbatim>\<open>t.bastionHost != ""\<close>: the bastion session, the relay
  channel through it, the key of the first hop and the second handshake over the
  channel. An early \<^verbatim>\<open>return 0, err\<close> of the source is \<open>Fail\<close> here, with the struct as
  it is at that point.\<close>

definition Start_bastion ::
  "world \<Rightarrow> SSHTunnel \<Rightarrow> SSHTunnel \<times> event list \<times> unit outcome" where
  "Start_bastion w t =
     (let bastionUser' = (if bastionUser t = '''' then sshUser t else bastionUser t);
          bastionKeyPath' =
            (if bastionKeyPath t = '''' then sshKeyPath t else bastionKeyPath t)
      in case createSSHClient w (bastionHost t) (bastionPort t) bastionUser' bastionKeyPath' of
           (tr1, Panic p) \<Rightarrow> (t, tr1, Panic p)
         | (tr1, Fail err) \<Rightarrow> (t, tr1, Fail (ConnectBastionFailed err))
         | (tr1, Ret bastionClient) \<Rightarrow>
             (let t = t\<lparr>bastionConn := Some bastionClient\<rparr>;
                  target = Addr (sshHost t) (sshPort t)
              in case clientDial w bastionClient target of
                   Inl err \<Rightarrow>
                     (t, tr1 @ [ClientDial bastionClient target, Closed (Client bastionClient)],
                      Fail (DialThroughBastionFailed err))
                 | Inr conn \<Rightarrow>
                     (let tr2 = tr1 @ [ClientDial bastionClient target, Opened (Conn conn)]
                      in case loadSSHKey w (sshKeyPath t) of
                           (tr3, Panic p) \<Rightarrow> (t, tr2 @ tr3, Panic p)
                         | (tr3, Fail err) \<Rightarrow>
                             (t, tr2 @ tr3 @ [Closed (Conn conn), Closed (Client bastionClient)],
                              Fail (LoadKeyFailed err))
                         | (tr3, Ret key) \<Rightarrow>
                             (case newClientConn w conn target (sshUser t) key of
                                Inl err \<Rightarrow>
                                  (t, tr2 @ tr3 @ [NewClientConn conn target (sshUser t),
                                       Closed (Conn conn), Closed (Client bastionClient)],
                                   Fail (SSHThroughBastionFailed err))
                              | Inr targetClient \<Rightarrow>
                                  (t\<lparr>targetConn := Some targetClient\<rparr>,
                                   tr2 @ tr3 @ [NewClientConn conn target (sshUser t),
                                       Opened (Client targetClient)],
                                   Ret ())))))"

text \<open>Lines 176--181, the direct connection.\<close>

definition Start_direct ::
  "world \<Rightarrow> SSHTunnel \<Rightarrow> SSHTunnel \<times> event list \<times> unit outcome" where
  "Start_direct w t =
     (case createSSHClient w (sshHost t) (sshPort t) (sshUser t) (sshKeyPath t) of
        (tr1, Panic p) \<Rightarrow> (t, tr1, Panic p)
      | (tr1, Fail err) \<Rightarrow> (t, tr1, Fail (ConnectSSHHostFailed err))
      | (tr1, Ret targetClient) \<Rightarrow> (t\<lparr>targetConn := Some targetClient\<rparr>, tr1, Ret ()))"

text \<open>Lines 184--198: the local listener, the forwarding goroutine and the sleep. A
  failed bind calls \<^verbatim>\<open>t.Stop()\<close>, whose panic, if any, is the panic of \<^verbatim>\<open>Start\<close>.\<close>

definition Start_listener ::
  "world \<Rightarrow> SSHTunnel \<Rightarrow> SSHTunnel \<times> event list \<times> int outcome" where
  "Start_listener w t =
     (let local = Addr ''127.0.0.1'' (localPort t)
      in case listen w local of
           Inl err \<Rightarrow>
             (case Stop t of
                (t', tr', Ret u) \<Rightarrow> (t', Listen local # tr', Fail (LocalListenerFailed err))
              | (t', tr', Fail e) \<Rightarrow> (t', Listen local # tr', Fail (LocalListenerFailed err))
              | (t', tr', Panic p) \<Rightarrow> (t', Listen local # tr', Panic p))
         | Inr (listener, port) \<Rightarrow>
             (t\<lparr>server := Some listener\<rparr>,
              [Listen local, Opened (Listener listener), GoForwardTunnel, Sleep 500],
              Ret (localPort t)))"

definition Start :: "world \<Rightarrow> SSHTunnel \<Rightarrow> SSHTunnel \<times> event list \<times> int outcome" where
  "Start w t =
     (if localPort t \<noteq> 0 then (t, [], Ret (localPort t))
      else case findFreePort w of
             (tr0, Panic p) \<Rightarrow> (t, tr0, Panic p)
           | (tr0, Fail err) \<Rightarrow> (t, tr0, Fail (FindFreePortFailed err))
           | (tr0, Ret port) \<Rightarrow>
               (let t = t\<lparr>localPort := port\<rparr>
                in case (if bastionHost t \<noteq> '''' then Start_bastion w t
                         else Start_direct w t) of
                     (t, tr1, Panic p) \<Rightarrow> (t, tr0 @ tr1, Panic p)
                   | (t, tr1, Fail err) \<Rightarrow> (t, tr0 @ tr1, Fail err)
                   | (t, tr1, Ret u) \<Rightarrow>
                       (case Start_listener w t of
                          (t, tr2, r) \<Rightarrow> (t, tr0 @ tr1 @ tr2, r))))"

subsection \<open>forwardTunnel\<close>

text \<open>\<^verbatim>\<open>binary.BigEndian.PutUint32(buf[lo:hi], v)\<close> and \<^verbatim>\<open>copy(buf[lo:], src)\<close> on a byte
  buffer. \<open>None\<close> is the panic of an out-of-range slice expression or of a destination
  shorter than four bytes.\<close>

definition be32 :: "32 word \<Rightarrow> byte list" where
  "be32 v = [ucast (drop_bit 24 v), ucast (drop_bit 16 v), ucast (drop_bit 8 v), ucast v]"

definition PutUint32 :: "byte list \<Rightarrow> nat \<Rightarrow> nat \<Rightarrow> 32 word \<Rightarrow> byte list option" where
  "PutUint32 buf lo hi v =
     (if lo \<le> hi \<and> hi \<le> length buf \<and> 4 \<le> hi - lo
      then Some (take lo buf @ be32 v @ drop (lo + 4) buf)
      else None)"

definition copy_at :: "byte list \<Rightarrow> nat \<Rightarrow> byte list \<Rightarrow> byte list option" where
  "copy_at buf lo src =
     (if lo \<le> length buf
      then (let n = min (length buf - lo) (length src)
            in Some (take lo buf @ take n src @ drop (lo + n) buf))
      else None)"

definition bytes_of :: "string \<Rightarrow> byte list" where
  "bytes_of s = map of_char s"

text \<open>Lines 229--238: the payload of the \<^verbatim>\<open>direct-tcpip\<close> channel request, written into a
  buffer of \<^verbatim>\<open>4+len(hostBytes)+4+4+4+4\<close> zero bytes at computed offsets.\<close>

definition channelData :: "string \<Rightarrow> int \<Rightarrow> byte list option" where
  "channelData remoteHost' remotePort' =
     (let hostBytes = bytes_of remoteHost';
          n = length hostBytes;
          originatorIP = [127, 0, 0, 1]
      in Option.bind (PutUint32 (replicate (4 + n + 4 + 4 + 4 + 4) 0) 0 4 (of_nat n)) (\<lambda>b.
         Option.bind (copy_at b 4 hostBytes) (\<lambda>b.
         Option.bind (PutUint32 b (4 + n) (4 + n + 4) (word_of_int remotePort')) (\<lambda>b.
         Option.bind (PutUint32 b (4 + n + 4) (4 + n + 8) (of_nat (length originatorIP))) (\<lambda>b.
         Option.bind (copy_at b (4 + n + 8) originatorIP) (\<lambda>b.
         PutUint32 b (4 + n + 8 + length originatorIP) (length b) 0))))))"

text \<open>What one round of the accept loop meets: the one-second deadline, another accept
  error, or a connection.\<close>

datatype accept = AcceptTimeout | AcceptFailed | Accepted nat

text \<open>The loop runs on the struct as \<^verbatim>\<open>Start\<close> left it, one round for each element of the
  list. The result is \<open>Some\<close> when the goroutine has ended (returned or panicked) and
  \<open>None\<close> when it is still polling after the last round.\<close>

fun forwardTunnel ::
  "world \<Rightarrow> SSHTunnel \<Rightarrow> accept list \<Rightarrow> event list \<times> unit outcome option" where
  "forwardTunnel w t [] =
     (if stopChan t = ClosedChan then ([], Some (Ret ())) else ([], None))"
| "forwardTunnel w t (a # accs) =
     (if stopChan t = ClosedChan then ([], Some (Ret ()))
      else case server t of
        None \<Rightarrow> ([], Some (Panic NilDereference))
      | Some l \<Rightarrow>
         (case a of
            AcceptTimeout \<Rightarrow> forwardTunnel w t accs
          | AcceptFailed \<Rightarrow>
              (if stopChan t \<noteq> NilChan \<and> stopChan t = ClosedChan then ([], Some (Ret ()))
               else forwardTunnel w t accs)
          | Accepted clientConn \<Rightarrow>
              (case channelData (remoteHost t) (remotePort t) of
                 None \<Rightarrow> ([Opened (Conn clientConn)], Some (Panic IndexOutOfRange))
               | Some payload \<Rightarrow>
                  (case targetConn t of
                     None \<Rightarrow> ([Opened (Conn clientConn)], Some (Panic NilDereference))
                   | Some tc \<Rightarrow>
                      (case openChannel w tc ''direct-tcpip'' payload of
                         Inl err \<Rightarrow>
                           (case forwardTunnel w t accs of
                              (tr, r) \<Rightarrow>
                                ([Opened (Conn clientConn),
                                  OpenChannel tc ''direct-tcpip'' payload,
                                  Closed (Conn clientConn)] @ tr, r))
                       | Inr channel \<Rightarrow>
                           (case forwardTunnel w t accs of
                              (tr, r) \<Rightarrow>
                                ([Opened (Conn clientConn),
                                  OpenChannel tc ''direct-tcpip'' payload,
                                  Opened (Channel channel),
                                  GoRelay clientConn channel] @ tr, r)))))))"

subsection \<open>Reading an event list\<close>

text \<open>The resources an event list opened and closed, in order, and those it opened
  and left open.\<close>

fun opened :: "event list \<Rightarrow> handle list" where
  "opened [] = []"
| "opened (Opened h # tr) = h # opened tr"
| "opened (e # tr) = opened tr"

fun closed :: "event list \<Rightarrow> handle list" where
  "closed [] = []"
| "closed (Closed h # tr) = h # closed tr"
| "closed (e # tr) = closed tr"

definition leaked :: "event list \<Rightarrow> handle list" where
  "leaked tr = filter (\<lambda>h. h \<notin> set (closed tr)) (opened tr)"

text \<open>The addresses an event list asked \<^verbatim>\<open>net.Listen\<close> to bind.\<close>

fun listens :: "event list \<Rightarrow> addr list" where
  "listens [] = []"
| "listens (Listen a # tr) = a # listens tr"
| "listens (e # tr) = listens tr"

text \<open>The payloads an event list sent with \<^verbatim>\<open>OpenChannel\<close>.\<close>

fun payloads :: "event list \<Rightarrow> byte list list" where
  "payloads [] = []"
| "payloads (OpenChannel c name p # tr) = p # payloads tr"
| "payloads (e # tr) = payloads tr"

subsection \<open>The specification's side\<close>

text \<open>An address on the loopback interface: the host part names it. The empty host of
  \<^verbatim>\<open>":0"\<close> is the wildcard: Go's \<^verbatim>\<open>net.Listen\<close> then listens on all interfaces.\<close>

fun is_loopback :: "addr \<Rightarrow> bool" where
  "is_loopback (Addr host port) =
     (host = ''127.0.0.1'' \<or> host = ''localhost'' \<or> host = ''::1'')"

text \<open>The relay request of the specification: remote host name, remote port, originator
  address, originator port. On the wire (the \<^verbatim>\<open>direct-tcpip\<close> channel request of the
  secure-transport protocol) a string is a 32-bit big-endian length and that many bytes,
  and a port is a 32-bit big-endian number; an address is a string holding its text.\<close>

record relay_request =
  rr_host :: "byte list"
  rr_port :: "32 word"
  rr_originator_addr :: "byte list"
  rr_originator_port :: "32 word"

fun get_uint32 :: "byte list \<Rightarrow> (32 word \<times> byte list) option" where
  "get_uint32 (a # b # c # d # rest) =
     Some (or (push_bit 24 (ucast a)) (or (push_bit 16 (ucast b))
             (or (push_bit 8 (ucast c)) (ucast d))), rest)"
| "get_uint32 bs = None"

definition get_string :: "byte list \<Rightarrow> (byte list \<times> byte list) option" where
  "get_string bs =
     (case get_uint32 bs of
        None \<Rightarrow> None
      | Some (n, rest) \<Rightarrow>
          if unat n \<le> length rest then Some (take (unat n) rest, drop (unat n) rest)
          else None)"

definition decode_relay_request :: "byte list \<Rightarrow> relay_request option" where
  "decode_relay_request bs =
     Option.bind (get_string bs) (\<lambda>(host, bs).
     Option.bind (get_uint32 bs) (\<lambda>(port, bs).
     Option.bind (get_string bs) (\<lambda>(oaddr, bs).
     Option.bind (get_uint32 bs) (\<lambda>(oport, bs).
       if bs = [] then
         Some \<lparr> rr_host = host, rr_port = port,
                rr_originator_addr = oaddr, rr_originator_port = oport \<rparr>
       else None))))"

subsection \<open>Concrete worlds and tunnels\<close>

text \<open>A machine whose port probe yields 40000, holding one key file, next to a bastion
  and a gateway that accept the key. The paths used have no \<^verbatim>\<open>$\<close> in them, so
  \<^verbatim>\<open>os.ExpandEnv\<close> leaves them as they are.\<close>

definition demo_key :: "byte list" where
  "demo_key = [45, 45, 45, 45, 45]"

definition demo_world :: world where
  "demo_world =
     \<lparr> listen = (\<lambda>a. if a = Addr '''' 0 then Inr (1, 40000)
                     else if a = Addr ''127.0.0.1'' 40000 then Inr (2, 40000)
                     else Inl (SysError ''bind: address already in use'')),
       expandEnv = (\<lambda>s. s),
       userHomeDir = ''/home/backup'',
       pathJoin = (\<lambda>a b. a @ ''/'' @ b),
       readFile = (\<lambda>p. if p = ''/home/backup/.ssh/id_ed25519'' then Inr demo_key
                       else Inl (SysError ''no such file or directory'')),
       parsePrivateKey = (\<lambda>bs. if bs = demo_key then Inr 7
                             else Inl (SysError ''ssh: no key found'')),
       sshDial = (\<lambda>a user key.
                    if a = Addr ''bastion.example'' 22 \<and> key = 7 then Inr 10
                    else if a = Addr ''gw.example'' 22 \<and> key = 7 then Inr 11
                    else Inl (SysError ''connection refused'')),
       clientDial = (\<lambda>c a. if c = 10 \<and> a = Addr ''gw.example'' 22 then Inr 20
                          else Inl (SysError ''administratively prohibited'')),
       newClientConn = (\<lambda>conn a user key.
                    if conn = 20 \<and> key = 7 then Inr 12
                    else Inl (SysError ''ssh: handshake failed'')),
       openChannel = (\<lambda>c name payload. Inr 30) \<rparr>"

text \<open>The same machine when the gateway refuses the connection.\<close>

definition demo_refused :: world where
  "demo_refused = demo_world\<lparr>sshDial := (\<lambda>a user key. Inl (SysError ''connection refused''))\<rparr>"

text \<open>The same machine when the bastion refuses to open the relay channel, and when the
  gateway rejects the second handshake.\<close>

definition demo_no_relay :: world where
  "demo_no_relay =
     demo_world\<lparr>clientDial := (\<lambda>c a. Inl (SysError ''administratively prohibited''))\<rparr>"

definition demo_no_handshake :: world where
  "demo_no_handshake =
     demo_world\<lparr>newClientConn := (\<lambda>conn a user key. Inl (SysError ''ssh: handshake failed''))\<rparr>"

definition demo_direct :: SSHTunnel where
  "demo_direct =
     NewSSHTunnel ''gw.example'' 22 ''backup'' ''~/.ssh/id_ed25519'' ''10.0.0.5'' 3306
       '''' 0 '''' ''''"

definition demo_chained :: SSHTunnel where
  "demo_chained =
     NewSSHTunnel ''gw.example'' 22 ''backup'' ''~/.ssh/id_ed25519'' ''10.0.0.5'' 3306
       ''bastion.example'' 0 '''' ''''"

text \<open>The same machine with no port left to bind, and a tunnel whose key path is the
  single character \<^verbatim>\<open>~\<close>.\<close>

definition demo_no_ports :: world where
  "demo_no_ports =
     demo_world\<lparr>listen := (\<lambda>a. Inl (SysError ''bind: address already in use''))\<rparr>"

definition demo_tilde :: SSHTunnel where
  "demo_tilde =
     NewSSHTunnel ''gw.example'' 22 ''backup'' ''~'' ''10.0.0.5'' 3306 '''' 0 '''' ''''"

text \<open>The direct tunnel after a successful \<^verbatim>\<open>Start\<close>, after the \<^verbatim>\<open>Stop\<close> that follows, and
  after a second \<^verbatim>\<open>Start\<close>.\<close>

definition demo_started :: SSHTunnel where
  "demo_started = fst (Start demo_world demo_direct)"

definition demo_stopped :: SSHTunnel where
  "demo_stopped = fst (Stop demo_started)"

definition demo_restarted :: SSHTunnel where
  "demo_restarted = fst (Start demo_world demo_stopped)"

section \<open>Properties\<close>

lemmas demo_defs = demo_world_def demo_refused_def demo_no_relay_def demo_no_handshake_def
  demo_no_ports_def demo_direct_def demo_chained_def demo_tilde_def demo_key_def
  NewSSHTunnel_def

lemmas code_defs = Start_def Start_bastion_def Start_direct_def Start_listener_def Stop_def
  findFreePort_def createSSHClient_def loadSSHKey_def

subsection \<open>Construction\<close>

text \<open>
  C10. The constructor stores bastion port 22 when it is given 0 and the given port
  otherwise, stores every other argument as given, and leaves the tunnel idle: local
  port 0, no listener, no session, the stop channel freshly made. It takes no world and
  yields no event: construction asks nothing of the network.
\<close>

theorem NewSSHTunnel_fields:
  "bastionPort (NewSSHTunnel sh sp su sk rh rp bh 0 bu bk) = 22
   \<and> bastionPort (NewSSHTunnel sh sp su sk rh rp bh bp bu bk) = (if bp = 0 then 22 else bp)
   \<and> sshHost (NewSSHTunnel sh sp su sk rh rp bh bp bu bk) = sh
   \<and> sshPort (NewSSHTunnel sh sp su sk rh rp bh bp bu bk) = sp
   \<and> sshUser (NewSSHTunnel sh sp su sk rh rp bh bp bu bk) = su
   \<and> sshKeyPath (NewSSHTunnel sh sp su sk rh rp bh bp bu bk) = sk
   \<and> remoteHost (NewSSHTunnel sh sp su sk rh rp bh bp bu bk) = rh
   \<and> remotePort (NewSSHTunnel sh sp su sk rh rp bh bp bu bk) = rp
   \<and> bastionHost (NewSSHTunnel sh sp su sk rh rp bh bp bu bk) = bh
   \<and> bastionUser (NewSSHTunnel sh sp su sk rh rp bh bp bu bk) = bu
   \<and> bastionKeyPath (NewSSHTunnel sh sp su sk rh rp bh bp bu bk) = bk
   \<and> localPort (NewSSHTunnel sh sp su sk rh rp bh bp bu bk) = 0
   \<and> server (NewSSHTunnel sh sp su sk rh rp bh bp bu bk) = None
   \<and> bastionConn (NewSSHTunnel sh sp su sk rh rp bh bp bu bk) = None
   \<and> targetConn (NewSSHTunnel sh sp su sk rh rp bh bp bu bk) = None
   \<and> stopChan (NewSSHTunnel sh sp su sk rh rp bh bp bu bk) = OpenChan"
  by (simp add: NewSSHTunnel_def)

subsection \<open>Event lists\<close>

lemma opened_append: "opened (xs @ ys) = opened xs @ opened ys"
  by (induction xs rule: opened.induct) simp_all

lemma closed_append: "closed (xs @ ys) = closed xs @ closed ys"
  by (induction xs rule: closed.induct) simp_all

lemma loadSSHKey_trace:
  "loadSSHKey w k = (tr, r) \<Longrightarrow> opened tr = [] \<and> closed tr = []"
  by (auto simp: loadSSHKey_def Let_def split: if_splits sum.splits)

lemma createSSHClient_Fail:
  "createSSHClient w h p u k = (tr, Fail e) \<Longrightarrow> opened tr = [] \<and> closed tr = []"
  by (auto simp: createSSHClient_def opened_append closed_append
      split: prod.splits outcome.splits sum.splits dest: loadSSHKey_trace)

lemma createSSHClient_Ret:
  "createSSHClient w h p u k = (tr, Ret c) \<Longrightarrow> opened tr = [Client c] \<and> closed tr = []"
  by (auto simp: createSSHClient_def opened_append closed_append
      split: prod.splits outcome.splits sum.splits dest: loadSSHKey_trace)

lemma findFreePort_Ret:
  "findFreePort w = (tr, Ret p) \<Longrightarrow>
     \<exists>l. tr = [Listen (Addr '''' 0), Opened (Listener l), Closed (Listener l)]"
  by (auto simp: findFreePort_def split: sum.splits)

subsection \<open>The port probe\<close>

text \<open>
  C9, as the code has it. The probe binds \<^verbatim>\<open>":0"\<close>, port 0 on the wildcard address (all
  interfaces). When the bind succeeds, the allocation returns the port the system
  assigned and has closed the probe listener before it returns: no listener is left
  open. When the bind fails, the allocation returns that error and no port, and has
  opened nothing.
\<close>

theorem findFreePort_wildcard_probe:
  "(listen w (Addr '''' 0) = Inr (l, p) \<longrightarrow>
      findFreePort w =
        ([Listen (Addr '''' 0), Opened (Listener l), Closed (Listener l)], Ret p)
      \<and> listens (fst (findFreePort w)) = [Addr '''' 0]
      \<and> leaked (fst (findFreePort w)) = [])
   \<and> (listen w (Addr '''' 0) = Inl e \<longrightarrow>
      findFreePort w = ([Listen (Addr '''' 0)], Fail e)
      \<and> opened (fst (findFreePort w)) = [])"
  by (simp add: findFreePort_def leaked_def)

text \<open>Witness for C9: the machine whose probe yields port 40000, and the machine with
  no port left.\<close>

theorem findFreePort_wildcard_probe_witness:
  "listen demo_world (Addr '''' 0) = Inr (1, 40000)
   \<and> findFreePort demo_world =
       ([Listen (Addr '''' 0), Opened (Listener 1), Closed (Listener 1)], Ret 40000)
   \<and> leaked (fst (findFreePort demo_world)) = []
   \<and> listen demo_no_ports (Addr '''' 0) = Inl (SysError ''bind: address already in use'')
   \<and> findFreePort demo_no_ports
       = ([Listen (Addr '''' 0)], Fail (SysError ''bind: address already in use''))"
proof -
  have a: "listen demo_world (Addr '''' 0) = Inr (1, 40000)"
    by (simp add: demo_world_def)
  have b: "listen demo_no_ports (Addr '''' 0) = Inl (SysError ''bind: address already in use'')"
    by (simp add: demo_no_ports_def demo_world_def)
  from a findFreePort_wildcard_probe [of demo_world 1 40000]
  have A: "findFreePort demo_world =
       ([Listen (Addr '''' 0), Opened (Listener 1), Closed (Listener 1)], Ret 40000)
     \<and> leaked (fst (findFreePort demo_world)) = []"
    by blast
  from b findFreePort_wildcard_probe
      [of demo_no_ports _ _ "SysError ''bind: address already in use''"]
  have B: "findFreePort demo_no_ports
       = ([Listen (Addr '''' 0)], Fail (SysError ''bind: address already in use''))"
    by blast
  from a b A B show ?thesis by blast
qed

text \<open>
  C9 as stated fails: the address of the probe is not on the loopback interface. On
  the machine whose probe succeeds with port 40000, the one address the allocation
  binds is \<^verbatim>\<open>":0"\<close>, whose empty host is the wildcard.
\<close>

theorem findFreePort_probe_not_loopback:
  "snd (findFreePort demo_world) = Ret 40000
   \<and> listens (fst (findFreePort demo_world)) = [Addr '''' 0]
   \<and> \<not> is_loopback (Addr '''' 0)"
  by (simp add: findFreePort_def demo_world_def)

subsection \<open>The key path\<close>

lemma loadSSHKey_short_path:
  "length (expandEnv w keyPath) < 2 \<Longrightarrow>
     loadSSHKey w keyPath =
       ([], Panic (SliceBoundsOutOfRange 2 (length (expandEnv w keyPath))))"
  by (simp add: loadSSHKey_def Let_def)

text \<open>
  C5 fails on the code: the slice \<^verbatim>\<open>expandedPath[:2]\<close> is taken with no length check.
  The one-character path \<^verbatim>\<open>~\<close> and the empty path panic in the loader, and a tunnel
  constructed with key path \<^verbatim>\<open>~\<close> panics in \<^verbatim>\<open>Start\<close>, after the port probe.
\<close>

theorem loadSSHKey_short_path_panics:
  "loadSSHKey demo_world ''~'' = ([], Panic (SliceBoundsOutOfRange 2 1))
   \<and> loadSSHKey demo_world '''' = ([], Panic (SliceBoundsOutOfRange 2 0))
   \<and> snd (snd (Start demo_world demo_tilde)) = Panic (SliceBoundsOutOfRange 2 1)"
  by (simp add: code_defs demo_defs)

subsection \<open>Stop\<close>

lemma Stop_resets:
  "Stop t = (t', tr, Ret u) \<Longrightarrow>
     localPort t' = 0 \<and> server t' = None \<and> targetConn t' = None \<and> bastionConn t' = None
     \<and> stopChan t' = ClosedChan"
  by (auto simp: Stop_def Let_def split: chan.splits option.splits)

lemma Stop_panics_when_closed:
  "stopChan t = ClosedChan \<Longrightarrow> Stop t = (t, [], Panic CloseOfClosedChannel)"
  by (simp add: Stop_def)

text \<open>Whatever the tunnel, a \<^verbatim>\<open>Stop\<close> that returned is followed by a \<^verbatim>\<open>Stop\<close> that panics.\<close>

lemma Stop_then_Stop_panics:
  assumes "Stop t = (t', tr, Ret u)"
  shows "Stop t' = (t', [], Panic CloseOfClosedChannel)"
  using Stop_resets [OF assms] by (simp add: Stop_panics_when_closed)

text \<open>
  C2 fails on the code: \<^verbatim>\<open>Stop\<close> closes the stop channel unconditionally, and the channel
  is made once, in the constructor. On every freshly constructed tunnel the first
  \<^verbatim>\<open>Stop\<close> returns and the second panics with "close of closed channel".
\<close>

theorem Stop_twice_panics:
  "snd (snd (Stop (NewSSHTunnel sh sp su sk rh rp bh bp bu bk))) = Ret ()
   \<and> snd (snd (Stop (fst (Stop (NewSSHTunnel sh sp su sk rh rp bh bp bu bk)))))
       = Panic CloseOfClosedChannel"
  by (simp add: Stop_def NewSSHTunnel_def)

subsection \<open>Start\<close>

lemma Start_bastion_frame:
  "Start_bastion w t = (t', tr, r) \<Longrightarrow>
     localPort t' = localPort t \<and> stopChan t' = stopChan t \<and> server t' = server t"
  by (auto simp: Start_bastion_def Let_def split: prod.splits outcome.splits sum.splits)

lemma Start_direct_frame:
  "Start_direct w t = (t', tr, r) \<Longrightarrow>
     localPort t' = localPort t \<and> stopChan t' = stopChan t \<and> server t' = server t"
  by (auto simp: Start_direct_def split: prod.splits outcome.splits)

lemma Start_listener_Ret:
  "Start_listener w t = (t', tr, Ret p) \<Longrightarrow> localPort t' = p \<and> server t' \<noteq> None"
  by (auto simp: Start_listener_def Let_def split: prod.splits outcome.splits sum.splits)

lemma Start_Ret_localPort:
  assumes "Start w t = (t', tr, Ret p)"
  shows "localPort t' = p"
proof (cases "localPort t = 0")
  case False
  with assms show ?thesis by (auto simp: Start_def)
next
  case True
  with assms show ?thesis
    by (auto simp: Start_def Let_def split: prod.splits outcome.splits if_splits
        dest: Start_listener_Ret)
qed

lemma Start_Ret_server:
  assumes "Start w t = (t', tr, Ret p)" and "localPort t = 0"
  shows "server t' \<noteq> None"
  using assms
  by (auto simp: Start_def Let_def split: prod.splits outcome.splits if_splits
      dest: Start_listener_Ret)

text \<open>The path that does reset the struct: when the bind of the local listener fails,
  \<^verbatim>\<open>Start\<close> calls \<^verbatim>\<open>Stop\<close>, and the tunnel is idle again.\<close>

lemma Start_listener_failure_resets:
  assumes "listen w (Addr ''127.0.0.1'' (localPort t)) = Inl e"
    and "stopChan t = OpenChan"
    and "Start_listener w t = (t', tr, r)"
  shows "r = Fail (LocalListenerFailed e) \<and> localPort t' = 0 \<and> server t' = None
    \<and> targetConn t' = None \<and> bastionConn t' = None"
proof -
  have "snd (snd (Stop t)) = Ret ()"
    using assms(2) by (simp add: Stop_def Let_def split: option.splits)
  then obtain t2 tr2 where s: "Stop t = (t2, tr2, Ret ())"
    by (metis prod.collapse)
  from assms(1,3) s have "t' = t2" and "r = Fail (LocalListenerFailed e)"
    by (simp_all add: Start_listener_def Let_def)
  with Stop_resets [OF s] show ?thesis by simp
qed

text \<open>
  C6. Once a \<^verbatim>\<open>Start\<close> has returned a port \<open>p\<close> without error, a further \<^verbatim>\<open>Start\<close> on
  the struct it left, in any world, returns the same \<open>p\<close> without error, performs no
  event at all (no key load, no dial, no listener) and leaves the struct as it is; so
  does every \<^verbatim>\<open>Start\<close> after that one. The port is a real TCP port, as a bind to port 0
  yields: it is not 0.
\<close>

theorem Start_idempotent_while_running:
  assumes "Start w t = (t', tr, Ret p)" and "p \<noteq> 0"
  shows "Start w' t' = (t', [], Ret p)"
proof -
  have "localPort t' = p" using assms(1) by (rule Start_Ret_localPort)
  with assms(2) show ?thesis by (simp add: Start_def)
qed

text \<open>Witness for C6: the direct tunnel is started on the demo machine and started
  again when the gateway has begun to refuse connections.\<close>

theorem Start_idempotent_while_running_witness:
  "snd (snd (Start demo_world demo_direct)) = Ret 40000
   \<and> Start demo_refused (fst (Start demo_world demo_direct))
       = (fst (Start demo_world demo_direct), [], Ret 40000)"
proof -
  have r: "snd (snd (Start demo_world demo_direct)) = Ret 40000"
    by (simp add: code_defs demo_defs)
  have r': "Start demo_world demo_direct =
      (fst (Start demo_world demo_direct), fst (snd (Start demo_world demo_direct)), Ret 40000)"
    using r by (metis prod.collapse)
  have nz: "(40000::int) \<noteq> 0" by simp
  have "Start demo_refused (fst (Start demo_world demo_direct))
       = (fst (Start demo_world demo_direct), [], Ret 40000)"
    by (rule Start_idempotent_while_running [OF r' nz])
  with r show ?thesis by blast
qed

text \<open>
  C7. An idle tunnel with a bastion, after a successful port probe. The bastion session
  is asked for with the bastion's user and key path, each replaced by the first hop's
  when empty. If that session fails, \<^verbatim>\<open>Start\<close> returns "failed to connect to bastion" and
  has opened nothing for the transport. If the relay channel through the bastion fails,
  it returns "failed to dial target through bastion" after closing the bastion session.
  If the second handshake over the channel fails, it returns "failed to create SSH
  connection through bastion" after closing the channel and then the bastion session.
  In each case no resource of the attempt is left open.
\<close>

theorem Start_chained_stepwise_cleanup:
  assumes idle: "localPort t = 0" and chained: "bastionHost t \<noteq> ''''"
    and probe: "findFreePort w = (tr0, Ret port)"
    and bu: "bu = (if bastionUser t = '''' then sshUser t else bastionUser t)"
    and bk: "bk = (if bastionKeyPath t = '''' then sshKeyPath t else bastionKeyPath t)"
    and target: "target = Addr (sshHost t) (sshPort t)"
  shows
    "(createSSHClient w (bastionHost t) (bastionPort t) bu bk = (tr1, Fail e) \<longrightarrow>
        Start w t = (t\<lparr>localPort := port\<rparr>, tr0 @ tr1, Fail (ConnectBastionFailed e))
        \<and> opened tr1 = [] \<and> leaked (tr0 @ tr1) = [])
   \<and> (createSSHClient w (bastionHost t) (bastionPort t) bu bk = (tr1, Ret b)
        \<and> clientDial w b target = Inl e \<longrightarrow>
        Start w t = (t\<lparr>localPort := port, bastionConn := Some b\<rparr>,
                     tr0 @ tr1 @ [ClientDial b target, Closed (Client b)],
                     Fail (DialThroughBastionFailed e))
        \<and> leaked (tr0 @ tr1 @ [ClientDial b target, Closed (Client b)]) = [])
   \<and> (createSSHClient w (bastionHost t) (bastionPort t) bu bk = (tr1, Ret b)
        \<and> clientDial w b target = Inr c
        \<and> loadSSHKey w (sshKeyPath t) = (tr3, Ret key)
        \<and> newClientConn w c target (sshUser t) key = Inl e \<longrightarrow>
        Start w t = (t\<lparr>localPort := port, bastionConn := Some b\<rparr>,
                     tr0 @ tr1 @ [ClientDial b target, Opened (Conn c)] @ tr3
                       @ [NewClientConn c target (sshUser t),
                          Closed (Conn c), Closed (Client b)],
                     Fail (SSHThroughBastionFailed e))
        \<and> leaked (tr0 @ tr1 @ [ClientDial b target, Opened (Conn c)] @ tr3
                       @ [NewClientConn c target (sshUser t),
                          Closed (Conn c), Closed (Client b)]) = [])"
proof -
  obtain l where tr0: "tr0 = [Listen (Addr '''' 0), Opened (Listener l), Closed (Listener l)]"
    using findFreePort_Ret [OF probe] by blast
  have s1: "createSSHClient w (bastionHost t) (bastionPort t) bu bk = (tr1, Fail e) \<Longrightarrow>
        Start w t = (t\<lparr>localPort := port\<rparr>, tr0 @ tr1, Fail (ConnectBastionFailed e))"
    using idle chained probe unfolding bu bk
    by (simp add: Start_def Start_bastion_def Let_def cong: if_cong split del: if_split)
  have l1: "createSSHClient w (bastionHost t) (bastionPort t) bu bk = (tr1, Fail e) \<Longrightarrow>
        opened tr1 = [] \<and> leaked (tr0 @ tr1) = []"
    using createSSHClient_Fail [of w "bastionHost t" "bastionPort t" bu bk tr1 e]
    by (simp add: leaked_def opened_append closed_append tr0)
  have s2: "createSSHClient w (bastionHost t) (bastionPort t) bu bk = (tr1, Ret b) \<Longrightarrow>
        clientDial w b target = Inl e \<Longrightarrow>
        Start w t = (t\<lparr>localPort := port, bastionConn := Some b\<rparr>,
                     tr0 @ tr1 @ [ClientDial b target, Closed (Client b)],
                     Fail (DialThroughBastionFailed e))"
    using idle chained probe unfolding bu bk target
    by (simp add: Start_def Start_bastion_def Let_def cong: if_cong split del: if_split)
  have l2: "createSSHClient w (bastionHost t) (bastionPort t) bu bk = (tr1, Ret b) \<Longrightarrow>
        leaked (tr0 @ tr1 @ [ClientDial b target, Closed (Client b)]) = []"
    using createSSHClient_Ret [of w "bastionHost t" "bastionPort t" bu bk tr1 b]
    by (simp add: leaked_def opened_append closed_append tr0)
  have s3: "createSSHClient w (bastionHost t) (bastionPort t) bu bk = (tr1, Ret b) \<Longrightarrow>
        clientDial w b target = Inr c \<Longrightarrow>
        loadSSHKey w (sshKeyPath t) = (tr3, Ret key) \<Longrightarrow>
        newClientConn w c target (sshUser t) key = Inl e \<Longrightarrow>
        Start w t = (t\<lparr>localPort := port, bastionConn := Some b\<rparr>,
                     tr0 @ tr1 @ [ClientDial b target, Opened (Conn c)] @ tr3
                       @ [NewClientConn c target (sshUser t),
                          Closed (Conn c), Closed (Client b)],
                     Fail (SSHThroughBastionFailed e))"
    using idle chained probe unfolding bu bk target
    by (simp add: Start_def Start_bastion_def Let_def cong: if_cong split del: if_split)
  have l3: "createSSHClient w (bastionHost t) (bastionPort t) bu bk = (tr1, Ret b) \<Longrightarrow>
        loadSSHKey w (sshKeyPath t) = (tr3, Ret key) \<Longrightarrow>
        leaked (tr0 @ tr1 @ [ClientDial b target, Opened (Conn c)] @ tr3
                       @ [NewClientConn c target (sshUser t),
                          Closed (Conn c), Closed (Client b)]) = []"
    using createSSHClient_Ret [of w "bastionHost t" "bastionPort t" bu bk tr1 b]
      loadSSHKey_trace [of w "sshKeyPath t" tr3 "Ret key"]
    by (simp add: leaked_def opened_append closed_append tr0)
  from s1 l1 s2 l2 s3 l3 show ?thesis by blast
qed

text \<open>Witness for C7: the chained tunnel, with empty bastion user and key path, on three
  machines: every SSH dial refused, the relay channel refused, the second handshake
  rejected.\<close>

theorem Start_chained_stepwise_cleanup_witness:
  "Start demo_refused demo_chained =
     (demo_chained\<lparr>localPort := 40000\<rparr>,
      [Listen (Addr '''' 0), Opened (Listener 1), Closed (Listener 1),
       ReadFile ''/home/backup/.ssh/id_ed25519'',
       SSHDial (Addr ''bastion.example'' 22) ''backup''],
      Fail (ConnectBastionFailed
        (ConnectFailed (Addr ''bastion.example'' 22) (SysError ''connection refused''))))
   \<and> Start demo_no_relay demo_chained =
     (demo_chained\<lparr>localPort := 40000, bastionConn := Some 10\<rparr>,
      [Listen (Addr '''' 0), Opened (Listener 1), Closed (Listener 1),
       ReadFile ''/home/backup/.ssh/id_ed25519'',
       SSHDial (Addr ''bastion.example'' 22) ''backup'', Opened (Client 10),
       ClientDial 10 (Addr ''gw.example'' 22), Closed (Client 10)],
      Fail (DialThroughBastionFailed (SysError ''administratively prohibited'')))
   \<and> Start demo_no_handshake demo_chained =
     (demo_chained\<lparr>localPort := 40000, bastionConn := Some 10\<rparr>,
      [Listen (Addr '''' 0), Opened (Listener 1), Closed (Listener 1),
       ReadFile ''/home/backup/.ssh/id_ed25519'',
       SSHDial (Addr ''bastion.example'' 22) ''backup'', Opened (Client 10),
       ClientDial 10 (Addr ''gw.example'' 22), Opened (Conn 20),
       ReadFile ''/home/backup/.ssh/id_ed25519'',
       NewClientConn 20 (Addr ''gw.example'' 22) ''backup'',
       Closed (Conn 20), Closed (Client 10)],
      Fail (SSHThroughBastionFailed (SysError ''ssh: handshake failed'')))"
proof -
  let ?tr0 = "[Listen (Addr '''' 0), Opened (Listener 1), Closed (Listener 1)]"
  let ?k = "[ReadFile ''/home/backup/.ssh/id_ed25519'']"
  let ?tr1 = "?k @ [SSHDial (Addr ''bastion.example'' 22) ''backup'', Opened (Client 10)]"
  have idle: "localPort demo_chained = 0" and chained: "bastionHost demo_chained \<noteq> ''''"
    and bu: "''backup'' =
      (if bastionUser demo_chained = '''' then sshUser demo_chained
       else bastionUser demo_chained)"
    and bk: "''~/.ssh/id_ed25519'' =
      (if bastionKeyPath demo_chained = '''' then sshKeyPath demo_chained
       else bastionKeyPath demo_chained)"
    and target: "Addr ''gw.example'' 22 = Addr (sshHost demo_chained) (sshPort demo_chained)"
    and fields: "bastionHost demo_chained = ''bastion.example''"
      "bastionPort demo_chained = 22" "sshKeyPath demo_chained = ''~/.ssh/id_ed25519''"
      "sshUser demo_chained = ''backup''"
    by (simp_all add: demo_defs)
  have p1: "findFreePort demo_refused = (?tr0, Ret 40000)"
    and p2: "findFreePort demo_no_relay = (?tr0, Ret 40000)"
    and p3: "findFreePort demo_no_handshake = (?tr0, Ret 40000)"
    by (simp_all add: findFreePort_def demo_defs)
  have c1: "createSSHClient demo_refused (bastionHost demo_chained) (bastionPort demo_chained)
      ''backup'' ''~/.ssh/id_ed25519'' =
        (?k @ [SSHDial (Addr ''bastion.example'' 22) ''backup''],
         Fail (ConnectFailed (Addr ''bastion.example'' 22) (SysError ''connection refused'')))"
    by (simp add: fields createSSHClient_def loadSSHKey_def demo_defs)
  have c2: "createSSHClient demo_no_relay (bastionHost demo_chained) (bastionPort demo_chained)
      ''backup'' ''~/.ssh/id_ed25519'' = (?tr1, Ret 10)"
    and d2: "clientDial demo_no_relay 10 (Addr ''gw.example'' 22)
      = Inl (SysError ''administratively prohibited'')"
    by (simp_all add: fields createSSHClient_def loadSSHKey_def demo_defs)
  have c3: "createSSHClient demo_no_handshake (bastionHost demo_chained)
      (bastionPort demo_chained) ''backup'' ''~/.ssh/id_ed25519'' = (?tr1, Ret 10)"
    and d3: "clientDial demo_no_handshake 10 (Addr ''gw.example'' 22) = Inr 20"
    and k3: "loadSSHKey demo_no_handshake (sshKeyPath demo_chained) = (?k, Ret 7)"
    and h3: "newClientConn demo_no_handshake 20 (Addr ''gw.example'' 22)
      (sshUser demo_chained) 7 = Inl (SysError ''ssh: handshake failed'')"
    by (simp_all add: fields createSSHClient_def loadSSHKey_def demo_defs)
  from Start_chained_stepwise_cleanup [OF idle chained p1 bu bk target] c1
  have A: "Start demo_refused demo_chained =
     (demo_chained\<lparr>localPort := 40000\<rparr>,
      ?tr0 @ ?k @ [SSHDial (Addr ''bastion.example'' 22) ''backup''],
      Fail (ConnectBastionFailed
        (ConnectFailed (Addr ''bastion.example'' 22) (SysError ''connection refused''))))"
    by blast
  from Start_chained_stepwise_cleanup [OF idle chained p2 bu bk target] c2 d2
  have B: "Start demo_no_relay demo_chained =
     (demo_chained\<lparr>localPort := 40000, bastionConn := Some 10\<rparr>,
      ?tr0 @ ?tr1 @ [ClientDial 10 (Addr ''gw.example'' 22), Closed (Client 10)],
      Fail (DialThroughBastionFailed (SysError ''administratively prohibited'')))"
    by blast
  from Start_chained_stepwise_cleanup [OF idle chained p3 bu bk target] c3 d3 k3 h3
  have C: "Start demo_no_handshake demo_chained =
     (demo_chained\<lparr>localPort := 40000, bastionConn := Some 10\<rparr>,
      ?tr0 @ ?tr1 @ [ClientDial 10 (Addr ''gw.example'' 22), Opened (Conn 20)] @ ?k
        @ [NewClientConn 20 (Addr ''gw.example'' 22) (sshUser demo_chained),
           Closed (Conn 20), Closed (Client 10)],
      Fail (SSHThroughBastionFailed (SysError ''ssh: handshake failed'')))"
    by blast
  from A B C show ?thesis by (simp add: fields)
qed

subsection \<open>A failed Start\<close>

text \<open>A successful \<^verbatim>\<open>Start\<close> of an idle tunnel leaves a port and a listener; a \<^verbatim>\<open>Stop\<close> that
  returns leaves neither (\<open>Stop_resets\<close>).\<close>

lemma Start_success_port_and_listener:
  assumes "Start w t = (t', tr, Ret p)" and "localPort t = 0" and "p \<noteq> 0"
  shows "localPort t' \<noteq> 0 \<and> server t' \<noteq> None"
  using Start_Ret_localPort [OF assms(1)] Start_Ret_server [OF assms(1,2)] assms(3)
  by simp

text \<open>Whatever the direct tunnel and the world, a failed session leaves the probed
  port in the struct.\<close>

lemma failed_direct_Start_keeps_port:
  assumes "localPort t = 0" and "bastionHost t = ''''"
    and "findFreePort w = (tr0, Ret port)"
    and "createSSHClient w (sshHost t) (sshPort t) (sshUser t) (sshKeyPath t) = (tr1, Fail e)"
  shows "Start w t = (t\<lparr>localPort := port\<rparr>, tr0 @ tr1, Fail (ConnectSSHHostFailed e))"
  using assms by (simp add: Start_def Start_direct_def)

text \<open>
  C1 fails on the code: \<^verbatim>\<open>Start\<close> stores the probed port in \<^verbatim>\<open>t.localPort\<close> before it
  builds the transport, and only the failure of the local bind resets it (through
  \<^verbatim>\<open>Stop\<close>). When the gateway refuses the direct dial, \<^verbatim>\<open>Start\<close> returns the error and
  leaves local port 40000 in the struct; the next \<^verbatim>\<open>Start\<close>, on the healthy machine,
  then returns 40000 without error and without doing anything. When the bastion
  refuses the relay channel, the closed bastion session stays in \<^verbatim>\<open>t.bastionConn\<close> as
  well.
\<close>

theorem failed_Start_keeps_partial_state:
  "Start demo_refused demo_direct =
     (demo_direct\<lparr>localPort := 40000\<rparr>,
      [Listen (Addr '''' 0), Opened (Listener 1), Closed (Listener 1),
       ReadFile ''/home/backup/.ssh/id_ed25519'', SSHDial (Addr ''gw.example'' 22) ''backup''],
      Fail (ConnectSSHHostFailed
        (ConnectFailed (Addr ''gw.example'' 22) (SysError ''connection refused''))))
   \<and> Start demo_world (demo_direct\<lparr>localPort := 40000\<rparr>)
       = (demo_direct\<lparr>localPort := 40000\<rparr>, [], Ret 40000)
   \<and> fst (Start demo_no_relay demo_chained)
       = demo_chained\<lparr>localPort := 40000, bastionConn := Some 10\<rparr>"
  by (simp add: code_defs demo_defs)

text \<open>
  C4 fails on the code, by the same early returns: after the \<^verbatim>\<open>Start\<close> that the gateway
  refused, the struct has local port 40000 and no listener. (The struct has no field
  \<^verbatim>\<open>running\<close>; the test \<^verbatim>\<open>Start\<close> makes for "already running" is \<^verbatim>\<open>t.localPort != 0\<close>.)
\<close>

theorem failed_Start_port_without_listener:
  "snd (snd (Start demo_refused demo_direct)) =
     Fail (ConnectSSHHostFailed
       (ConnectFailed (Addr ''gw.example'' 22) (SysError ''connection refused'')))
   \<and> localPort (fst (Start demo_refused demo_direct)) = 40000
   \<and> server (fst (Start demo_refused demo_direct)) = None"
  by (simp add: code_defs demo_defs)

subsection \<open>Starting again after Stop\<close>

lemma Start_listener_stopChan_closed:
  "stopChan t = ClosedChan \<Longrightarrow> stopChan (fst (Start_listener w t)) = ClosedChan"
  by (auto simp: Start_listener_def Let_def Stop_panics_when_closed split: sum.splits)

lemma Start_keeps_stopChan_closed:
  assumes "stopChan t = ClosedChan"
  shows "stopChan (fst (Start w t)) = ClosedChan"
proof (cases "localPort t = 0")
  case False
  with assms show ?thesis by (simp add: Start_def)
next
  case True
  obtain tr0 r0 where f: "findFreePort w = (tr0, r0)" by (cases "findFreePort w")
  show ?thesis
  proof (cases r0)
    case (Ret port)
    define t1 where "t1 = t\<lparr>localPort := port\<rparr>"
    obtain t2 tr1 r1 where b:
      "(if bastionHost t1 \<noteq> '''' then Start_bastion w t1 else Start_direct w t1) = (t2, tr1, r1)"
      by (metis prod_cases3)
    then have c: "stopChan t2 = ClosedChan"
      using assms Start_bastion_frame [of w t1 t2 tr1 r1]
        Start_direct_frame [of w t1 t2 tr1 r1]
      by (auto simp: t1_def split: if_splits)
    show ?thesis
      using True f Ret b c Start_listener_stopChan_closed [OF c, of w]
      by (cases r1) (auto simp: Start_def Let_def t1_def split: prod.splits)
  qed (use True f assms in \<open>auto simp: Start_def\<close>)
qed

lemma forwardTunnel_closed:
  "stopChan t = ClosedChan \<Longrightarrow> forwardTunnel w t accs = ([], Some (Ret ()))"
  by (cases accs) simp_all

text \<open>After a \<^verbatim>\<open>Stop\<close> that returned, no later \<^verbatim>\<open>Start\<close> gets a forwarding loop that
  serves a connection: the stop channel stays closed, and the loop returns at its
  first \<^verbatim>\<open>select\<close>.\<close>

lemma no_forwarding_after_Stop:
  assumes "Stop t = (t', tr, Ret u)"
  shows "forwardTunnel w2 (fst (Start w t')) accs = ([], Some (Ret ()))"
proof -
  have "stopChan t' = ClosedChan" using Stop_resets [OF assms] by simp
  then have "stopChan (fst (Start w t')) = ClosedChan" by (rule Start_keeps_stopChan_closed)
  then show ?thesis by (rule forwardTunnel_closed)
qed

lemma length_be32 [simp]: "length (be32 v) = 4"
  by (simp add: be32_def)

lemma channelData_eq:
  "channelData h p = Some (be32 (of_nat (length h)) @ bytes_of h @ be32 (word_of_int p)
      @ be32 4 @ [127, 0, 0, 1] @ be32 0)"
  by (simp add: channelData_def PutUint32_def copy_at_def Let_def bytes_of_def)

text \<open>
  C3 fails on the code in its second half. \<^verbatim>\<open>Stop\<close> does clear the port and the three
  handles, but it also closes the stop channel, which nothing makes anew. On the demo
  machine the first \<^verbatim>\<open>Start\<close> yields a loop that forwards an accepted connection; after
  \<^verbatim>\<open>Stop\<close>, the second \<^verbatim>\<open>Start\<close> returns port 40000 without error, yet its loop returns
  at once whatever arrives, so the new listener is never served; and the next \<^verbatim>\<open>Stop\<close>
  panics.
\<close>

theorem restart_after_Stop_serves_nothing:
  "snd (snd (Stop demo_started)) = Ret ()
   \<and> localPort demo_stopped = 0 \<and> server demo_stopped = None
   \<and> targetConn demo_stopped = None \<and> bastionConn demo_stopped = None
   \<and> snd (snd (Start demo_world demo_stopped)) = Ret 40000
   \<and> server demo_restarted = Some 2
   \<and> opened (fst (forwardTunnel demo_world demo_started [Accepted 50]))
       = [Conn 50, Channel 30]
   \<and> forwardTunnel demo_world demo_restarted accs = ([], Some (Ret ()))
   \<and> snd (snd (Stop demo_restarted)) = Panic CloseOfClosedChannel"
proof -
  have "stopChan demo_restarted = ClosedChan"
    by (simp add: demo_restarted_def demo_stopped_def demo_started_def code_defs demo_defs)
  then have "forwardTunnel demo_world demo_restarted accs = ([], Some (Ret ()))"
    by (rule forwardTunnel_closed)
  moreover have "opened (fst (forwardTunnel demo_world demo_started [Accepted 50]))
       = [Conn 50, Channel 30]"
    by (simp add: channelData_eq demo_started_def code_defs demo_defs)
  moreover have "snd (snd (Stop demo_started)) = Ret ()
   \<and> localPort demo_stopped = 0 \<and> server demo_stopped = None
   \<and> targetConn demo_stopped = None \<and> bastionConn demo_stopped = None
   \<and> snd (snd (Start demo_world demo_stopped)) = Ret 40000
   \<and> server demo_restarted = Some 2
   \<and> snd (snd (Stop demo_restarted)) = Panic CloseOfClosedChannel"
    by (simp add: demo_restarted_def demo_stopped_def demo_started_def code_defs demo_defs)
  ultimately show ?thesis by blast
qed

subsection \<open>The relay request\<close>

lemma be32_recombine:
  fixes v :: "32 word"
  shows "or (push_bit 24 (ucast (ucast (drop_bit 24 v) :: byte)))
           (or (push_bit 16 (ucast (ucast (drop_bit 16 v) :: byte)))
             (or (push_bit 8 (ucast (ucast (drop_bit 8 v) :: byte)))
               (ucast (ucast v :: byte)))) = v" (is "?l = v")
proof (rule bit_word_eqI)
  fix n assume n: "n < LENGTH(32)"
  consider "n < 8" | "8 \<le> n" "n < 16" | "16 \<le> n" "n < 24" | "24 \<le> n" "n < 32"
    using n by fastforce
  then show "bit ?l n = bit v n"
    by cases (auto simp add: bit_simps)
qed

lemma get_uint32_be32 [simp]: "get_uint32 (be32 v @ rest) = Some (v, rest)"
  by (simp add: be32_def be32_recombine)

lemma get_string_be32:
  "length bs < 2 ^ 32 \<Longrightarrow>
     get_string (be32 (of_nat (length bs)) @ bs @ rest) = Some (bs, rest)"
  by (simp add: get_string_def unat_of_nat)

text \<open>What a reader of the standard format gets from the payload: the host and the port
  (for a host shorter than \<open>2^32\<close> bytes; the port as \<^verbatim>\<open>uint32(t.remotePort)\<close>), originator
  port 0, and as originator address the four bytes 127, 0, 0, 1.\<close>

lemma decode_channelData:
  assumes "length h < 2 ^ 32"
  shows "Option.bind (channelData h p) decode_relay_request =
     Some \<lparr> rr_host = bytes_of h, rr_port = word_of_int p,
            rr_originator_addr = [127, 0, 0, 1], rr_originator_port = 0 \<rparr>"
proof -
  have l: "length (bytes_of h) = length h" by (simp add: bytes_of_def)
  have s1: "\<And>rest. get_string (be32 (of_nat (length h)) @ bytes_of h @ rest)
      = Some (bytes_of h, rest)"
    using get_string_be32 [of "bytes_of h"] assms l by simp
  have s2: "\<And>rest. get_string (be32 4 @ [127, 0, 0, 1] @ rest) = Some ([127, 0, 0, 1], rest)"
    using get_string_be32 [of "[127, 0, 0, 1]"] by simp
  have z: "get_uint32 (be32 0) = Some (0, [])"
    using get_uint32_be32 [of 0 "[]"] by simp
  show ?thesis
    by (simp add: channelData_eq decode_relay_request_def s1 s2 z del: append.simps)
qed

text \<open>Every payload the loop sends is the one \<open>channelData\<close> builds from the tunnel's
  remote host and port.\<close>

lemma forwardTunnel_payloads:
  "p \<in> set (payloads (fst (forwardTunnel w t accs))) \<Longrightarrow>
     channelData (remoteHost t) (remotePort t) = Some p"
  by (induction accs)
     (auto split: if_splits option.splits accept.splits sum.splits prod.splits)

text \<open>
  C8 fails on the code in the originator address. For the connection accepted by the
  started demo tunnel (remote host 10.0.0.5, port 3306) the payload sent is the 28 bytes
  below. Read in the standard format, it gives the host, the port and originator port 0,
  and as originator address the four bytes 127, 0, 0, 1 (the address in binary): not
  the nine characters of the text "127.0.0.1" that the format carries in that field.
\<close>

theorem forwarded_originator_address_is_raw_bytes:
  "payloads (fst (forwardTunnel demo_world demo_started [Accepted 50])) =
     [[0, 0, 0, 8, 49, 48, 46, 48, 46, 48, 46, 53, 0, 0, 12, 234,
       0, 0, 0, 4, 127, 0, 0, 1, 0, 0, 0, 0]]
   \<and> decode_relay_request
       [0, 0, 0, 8, 49, 48, 46, 48, 46, 48, 46, 53, 0, 0, 12, 234,
        0, 0, 0, 4, 127, 0, 0, 1, 0, 0, 0, 0] =
     Some \<lparr> rr_host = bytes_of ''10.0.0.5'', rr_port = 3306,
            rr_originator_addr = [127, 0, 0, 1], rr_originator_port = 0 \<rparr>
   \<and> bytes_of ''127.0.0.1'' = [49, 50, 55, 46, 48, 46, 48, 46, 49]
   \<and> [127, 0, 0, 1] \<noteq> bytes_of ''127.0.0.1''"
proof -
  have st: "remoteHost demo_started = ''10.0.0.5''" "remotePort demo_started = 3306"
    "stopChan demo_started = OpenChan" "server demo_started = Some 2"
    "targetConn demo_started = Some 11"
    by (simp_all add: demo_started_def code_defs demo_defs)
  have cd: "channelData ''10.0.0.5'' 3306 =
     Some [0, 0, 0, 8, 49, 48, 46, 48, 46, 48, 46, 53, 0, 0, 12, 234,
       0, 0, 0, 4, 127, 0, 0, 1, 0, 0, 0, 0]"
    by (simp add: channelData_eq be32_def bytes_of_def)
  have a: "payloads (fst (forwardTunnel demo_world demo_started [Accepted 50])) =
     [[0, 0, 0, 8, 49, 48, 46, 48, 46, 48, 46, 53, 0, 0, 12, 234,
       0, 0, 0, 4, 127, 0, 0, 1, 0, 0, 0, 0]]"
    by (simp add: st cd demo_world_def)
  have b: "decode_relay_request
       [0, 0, 0, 8, 49, 48, 46, 48, 46, 48, 46, 53, 0, 0, 12, 234,
        0, 0, 0, 4, 127, 0, 0, 1, 0, 0, 0, 0] =
     Some \<lparr> rr_host = bytes_of ''10.0.0.5'', rr_port = 3306,
            rr_originator_addr = [127, 0, 0, 1], rr_originator_port = 0 \<rparr>"
    using decode_channelData [of "''10.0.0.5''" 3306] by (simp add: cd)
  have c: "bytes_of ''127.0.0.1'' = [49, 50, 55, 46, 48, 46, 48, 46, 49]"
    by (simp add: bytes_of_def)
  from a b c show ?thesis by simp
qed

end
